theory Spec2Isabelle
  imports Main
begin

section \<open>The serial session of druid.js (class CrowConnection)\<close>

text \<open>
  The session object of \<^verbatim>\<open>src/druid.js\<close> talks to three browser objects: the serial
  port, the reader of the decoded input stream and the writer of the encoded output
  stream. They are outside the program, so the model names them by handles, records
  every call made on them in a log, and takes the outcome of every call from an
  environment argument. The two observer callbacks are collaborators as well: the model
  keeps whether one is registered and records each call of it in the same log; a
  registered observer is taken to return normally.

  The program runs on one thread, and its asynchronous functions give way to each other
  only where they \<^verbatim>\<open>await\<close>. The read loop is the one task that stays suspended
  between calls, so it is modelled as a continuation: \<open>startReading\<close> runs it up to
  its first \<^verbatim>\<open>await\<close>, and \<open>startReading_resume\<close> runs it on from there each time
  the pending read settles. Every step is a total function, and a loop that waits
  for ever is a world in which \<open>reading\<close> stays true.
\<close>

type_synonym handle = nat

text \<open>A thrown or rejected value, with its \<^verbatim>\<open>message\<close>.\<close>

datatype js_error = Err string

fun message :: "js_error \<Rightarrow> string" where
  "message (Err m) = m"

text \<open>
  What the program does to the outside, in the order it does it. \<open>ConnectionChange c r\<close>
  is one call \<^verbatim>\<open>onConnectionChange(c, r)\<close>; the reason \<open>None\<close> is JavaScript's
  \<^verbatim>\<open>undefined\<close> (the argument was not passed).
\<close>

datatype effect =
    RequestPort
  | PortOpen handle
  | ReaderRead handle
  | ReaderCancel handle
  | AwaitReadableClosed handle
  | WriterWrite handle string
  | WriterClose handle
  | AwaitWritableClosed handle
  | PortClose handle
  | DataReceived string
  | ConnectionChange bool "string option"
  | ConsoleError string js_error

text \<open>
  The fields of the class, as the constructor declares them (lines 7-16), and
  \<^verbatim>\<open>shouldReconnect\<close>, which only the read loop assigns (line 72). The two
  stream-closed fields hold the promise returned by \<^verbatim>\<open>pipeTo\<close>, named here by the
  port whose stream is piped; the two callback fields hold whether a handler is set.
\<close>

record session =
  port :: "handle option"
  reader :: "handle option"
  writer :: "handle option"
  isConnected :: bool
  readableStreamClosed :: "handle option"
  writableStreamClosed :: "handle option"
  onDataReceived :: bool
  onConnectionChange :: bool
  shouldReconnect :: "bool option"

text \<open>
  The session together with the log of effects and the state of the one background
  task: \<open>reading\<close> holds while \<^verbatim>\<open>startReading\<close> is suspended at
  \<^verbatim>\<open>await this.reader.read()\<close>.
\<close>

record world =
  sess :: session
  log :: "effect list"
  reading :: bool

definition CrowConnection_new :: session where
  "CrowConnection_new =
     \<lparr>port = None, reader = None, writer = None, isConnected = False,
      readableStreamClosed = None, writableStreamClosed = None,
      onDataReceived = False, onConnectionChange = False, shouldReconnect = None\<rparr>"

definition new_world :: "bool \<Rightarrow> bool \<Rightarrow> world" where
  \<comment> \<open>a fresh session whose observers are registered (lines 299-300) or not\<close>
  "new_world d c =
     \<lparr>sess = CrowConnection_new\<lparr>onDataReceived := d, onConnectionChange := c\<rparr>,
      log = [], reading = False\<rparr>"

definition emit :: "effect \<Rightarrow> world \<Rightarrow> world" where
  "emit e w = w\<lparr>log := log w @ [e]\<rparr>"

definition upd :: "(session \<Rightarrow> session) \<Rightarrow> world \<Rightarrow> world" where
  "upd f w = w\<lparr>sess := f (sess w)\<rparr>"

definition fire :: "bool \<Rightarrow> string option \<Rightarrow> world \<Rightarrow> world" where
  \<comment> \<open>\<^verbatim>\<open>if (this.onConnectionChange) this.onConnectionChange(c, r)\<close>\<close>
  "fire c r w = (if onConnectionChange (sess w) then emit (ConnectionChange c r) w else w)"

text \<open>The connection-change events observed so far, and the texts handed to the writer.\<close>

fun events :: "effect list \<Rightarrow> (bool \<times> string option) list" where
  "events [] = []"
| "events (ConnectionChange c r # es) = (c, r) # events es"
| "events (_ # es) = events es"

fun written :: "effect list \<Rightarrow> string list" where
  "written [] = []"
| "written (WriterWrite h d # es) = d # written es"
| "written (_ # es) = written es"

subsection \<open>The read loop and its fault handler (lines 58-94)\<close>

text \<open>
  The outcomes of the release calls of the fault handler and of \<^verbatim>\<open>disconnect\<close>:
  \<open>None\<close> when the promise resolves, the error when it rejects.
\<close>

record release_env =
  cancel_result :: "js_error option"
  readable_closed_result :: "js_error option"
  close_result :: "js_error option"
  writable_closed_result :: "js_error option"
  port_close_result :: "js_error option"

definition fault_reason :: string where
  "fault_reason = ''device disconnected. please reconnect > ''"

definition swallowed :: "js_error option \<Rightarrow> world \<Rightarrow> world" where
  \<comment> \<open>\<^verbatim>\<open>.catch(() => {})\<close> after a call: the handler of a rejection has an empty body\<close>
  "swallowed res w = (case res of None \<Rightarrow> w | Some e \<Rightarrow> w)"

text \<open>
  The statements of the handler's \<^verbatim>\<open>if (this.isConnected)\<close> block, one definition
  each, in the order of the source. The handler is taken to run to its end with no
  other call on the session arriving while it awaits a release.
\<close>

definition flip_connected :: "release_env \<Rightarrow> world \<Rightarrow> world" where
  \<comment> \<open>lines 71-72\<close>
  "flip_connected env w = upd (\<lambda>s. s\<lparr>isConnected := False, shouldReconnect := Some False\<rparr>) w"

definition cancel_reader :: "release_env \<Rightarrow> world \<Rightarrow> world" where
  \<comment> \<open>lines 74-76\<close>
  "cancel_reader env w =
     (case reader (sess w) of None \<Rightarrow> w
      | Some r \<Rightarrow> swallowed (cancel_result env) (emit (ReaderCancel r) w))"

definition close_writer :: "release_env \<Rightarrow> world \<Rightarrow> world" where
  \<comment> \<open>lines 77-79\<close>
  "close_writer env w =
     (case writer (sess w) of None \<Rightarrow> w
      | Some x \<Rightarrow> swallowed (close_result env) (emit (WriterClose x) w))"

definition null_streams :: "release_env \<Rightarrow> world \<Rightarrow> world" where
  \<comment> \<open>lines 81-82\<close>
  "null_streams env w = upd (\<lambda>s. s\<lparr>reader := None, writer := None\<rparr>) w"

definition close_port :: "release_env \<Rightarrow> world \<Rightarrow> world" where
  \<comment> \<open>lines 84-87\<close>
  "close_port env w =
     (case port (sess w) of None \<Rightarrow> w
      | Some p \<Rightarrow>
          upd (\<lambda>s. s\<lparr>port := None\<rparr>) (swallowed (port_close_result env) (emit (PortClose p) w)))"

definition fire_fault :: "release_env \<Rightarrow> world \<Rightarrow> world" where
  \<comment> \<open>lines 89-91\<close>
  "fire_fault env w = fire False (Some fault_reason) w"

definition teardown_steps :: "(release_env \<Rightarrow> world \<Rightarrow> world) list" where
  "teardown_steps =
     [flip_connected, cancel_reader, close_writer, null_streams, close_port, fire_fault]"

definition run_steps :: "(release_env \<Rightarrow> world \<Rightarrow> world) list \<Rightarrow> release_env \<Rightarrow> world \<Rightarrow> world" where
  "run_steps fs env w = fold (\<lambda>f. f env) fs w"

definition read_fault :: "release_env \<Rightarrow> js_error \<Rightarrow> world \<Rightarrow> world" where
  \<comment> \<open>the \<^verbatim>\<open>catch\<close> block, lines 67-93; the task ends with it\<close>
  "read_fault env e w =
     (let w1 = emit (ConsoleError ''Read error:'' e) w;
          w2 = (if isConnected (sess w1) then run_steps teardown_steps env w1 else w1)
      in w2\<lparr>reading := False\<rparr>)"

text \<open>
  The head of the \<^verbatim>\<open>while\<close> loop, up to the suspension at \<^verbatim>\<open>await\<close>: the loop
  ends when \<open>isConnected\<close> is false; otherwise it calls \<^verbatim>\<open>this.reader.read()\<close>, which
  throws a TypeError into the \<^verbatim>\<open>catch\<close> block when the reader is null.
\<close>

definition loop_head :: "release_env \<Rightarrow> world \<Rightarrow> world" where
  "loop_head env w =
     (if isConnected (sess w) then
        (case reader (sess w) of
           None \<Rightarrow> read_fault env (Err ''Cannot read properties of null (reading 'read')'') w
         | Some r \<Rightarrow> (emit (ReaderRead r) w)\<lparr>reading := True\<rparr>)
      else w\<lparr>reading := False\<rparr>)"

definition startReading :: "release_env \<Rightarrow> world \<Rightarrow> world" where
  \<comment> \<open>the call of line 42: the body runs up to its first \<^verbatim>\<open>await\<close>\<close>
  "startReading env w = loop_head env w"

text \<open>What the pending \<^verbatim>\<open>read()\<close> settles with.\<close>

datatype read_result = ReadValue string | ReadDone | ReadError js_error

text \<open>
  The continuation of \<^verbatim>\<open>startReading\<close> when the pending read settles (lines 61-66
  and the \<^verbatim>\<open>catch\<close>). A chunk is handed to the observer when it is non-empty
  (\<^verbatim>\<open>value &&\<close>) and an observer is set, and the loop goes round; end-of-stream breaks
  out of the loop; a rejection enters the handler. Nothing is resumed when no read is
  pending.
\<close>

definition startReading_resume :: "release_env \<Rightarrow> read_result \<Rightarrow> world \<Rightarrow> world" where
  "startReading_resume env r w =
     (if \<not> reading w then w
      else case r of
        ReadDone \<Rightarrow> w\<lparr>reading := False\<rparr>
      | ReadValue v \<Rightarrow>
          loop_head env (if v \<noteq> [] \<and> onDataReceived (sess w) then emit (DataReceived v) w else w)
      | ReadError e \<Rightarrow> read_fault env e w)"

subsection \<open>connect (lines 18-56)\<close>

text \<open>
  The outcomes of the calls of \<^verbatim>\<open>connect\<close>: the port chosen in the picker or the
  rejection of \<^verbatim>\<open>requestPort\<close>, the rejection of \<^verbatim>\<open>open\<close> if any, and the reader
  and the writer obtained from the two text streams (or what setting them up throws).
\<close>

record connect_env =
  requestPort_result :: "js_error + handle"
  open_result :: "js_error option"
  decoder_result :: "js_error + handle"
  encoder_result :: "js_error + handle"
  loop_env :: release_env

definition connect_catch :: "js_error \<Rightarrow> world \<Rightarrow> bool \<times> world" where
  \<comment> \<open>lines 49-55\<close>
  "connect_catch e w =
     (False, fire False (Some (message e)) (emit (ConsoleError ''Connection error:'' e) w))"

definition connect :: "connect_env \<Rightarrow> world \<Rightarrow> bool \<times> world" where
  "connect env w0 =
     (let w1 = emit RequestPort w0 in
      case requestPort_result env of
        Inl e \<Rightarrow> connect_catch e w1
      | Inr p \<Rightarrow>
          let w2 = emit (PortOpen p) (upd (\<lambda>s. s\<lparr>port := Some p\<rparr>) w1) in
          (case open_result env of
             Some e \<Rightarrow> connect_catch e w2
           | None \<Rightarrow>
               let w3 = upd (\<lambda>s. s\<lparr>isConnected := True\<rparr>) w2 in
               (case decoder_result env of
                  Inl e \<Rightarrow> connect_catch e w3
                | Inr r \<Rightarrow>
                    let w4 = upd (\<lambda>s. s\<lparr>readableStreamClosed := Some p, reader := Some r\<rparr>) w3 in
                    (case encoder_result env of
                       Inl e \<Rightarrow> connect_catch e w4
                     | Inr x \<Rightarrow>
                         let w5 = upd (\<lambda>s. s\<lparr>writableStreamClosed := Some p, writer := Some x\<rparr>) w4;
                             w6 = startReading (loop_env env) w5
                         in (True, fire True None w6)))))"

subsection \<open>write and writeLine (lines 96-111)\<close>

text \<open>\<^verbatim>\<open>write\<close>, named \<open>write_raw\<close> since \<open>write\<close> is a command of the proof language.\<close>

definition write_raw :: "js_error option \<Rightarrow> string \<Rightarrow> world \<Rightarrow> (js_error + unit) \<times> world" where
  "write_raw res data w =
     (if \<not> isConnected (sess w) then (Inl (Err ''Not connected''), w)
      else case writer (sess w) of
        None \<Rightarrow> (Inl (Err ''Not connected''), w)
      | Some x \<Rightarrow>
          let w1 = emit (WriterWrite x data) w in
          (case res of
             None \<Rightarrow> (Inr (), w1)
           | Some e \<Rightarrow> (Inl e, emit (ConsoleError ''Write error:'' e) w1)))"

definition CRLF :: string where
  "CRLF = [CHR 0x0D, CHR 0x0A]"

definition writeLine :: "js_error option \<Rightarrow> string \<Rightarrow> world \<Rightarrow> (js_error + unit) \<times> world" where
  "writeLine res line w = write_raw res (line @ CRLF) w"

subsection \<open>disconnect (lines 113-137)\<close>

text \<open>
  \<^verbatim>\<open>disconnect\<close> in two parts, cut at its first suspension: \<open>disconnect_begin\<close> is
  line 114 and the call \<^verbatim>\<open>this.reader.cancel()\<close> of line 117, \<open>disconnect_resume\<close>
  is everything after that call. Between the two the read loop may run, since
  cancelling the reader settles its pending read; the loop leaves the fields of the
  session alone once \<open>isConnected\<close> is false, so \<open>disconnect_resume\<close> finds the reader
  that line 116 tested. Awaiting a stream-closed field that is null throws a TypeError
  out of \<^verbatim>\<open>disconnect\<close>.
\<close>

definition disconnect_begin :: "world \<Rightarrow> world" where
  "disconnect_begin w0 =
     (let w1 = upd (\<lambda>s. s\<lparr>isConnected := False\<rparr>) w0 in
      case reader (sess w1) of None \<Rightarrow> w1 | Some r \<Rightarrow> emit (ReaderCancel r) w1)"

definition await_closed ::
  "(handle \<Rightarrow> effect) \<Rightarrow> handle option \<Rightarrow> js_error option \<Rightarrow> world \<Rightarrow> js_error + world" where
  \<comment> \<open>\<^verbatim>\<open>await this.readableStreamClosed.catch(() => {})\<close> and its twin of line 123\<close>
  "await_closed eff field res w =
     (case field of
        None \<Rightarrow> Inl (Err ''Cannot read properties of null (reading 'catch')'')
      | Some q \<Rightarrow> Inr (swallowed res (emit (eff q) w)))"

definition disconnect_finish :: "release_env \<Rightarrow> world \<Rightarrow> (js_error + unit) \<times> world" where
  \<comment> \<open>lines 126-136\<close>
  "disconnect_finish env w =
     (let w1 = (case port (sess w) of None \<Rightarrow> w
                | Some p \<Rightarrow> swallowed (port_close_result env) (emit (PortClose p) w));
          w2 = upd (\<lambda>s. s\<lparr>port := None, reader := None, writer := None\<rparr>) w1
      in (Inr (), fire False None w2))"

definition disconnect_writer :: "release_env \<Rightarrow> world \<Rightarrow> (js_error + unit) \<times> world" where
  \<comment> \<open>lines 121-124, then the rest\<close>
  "disconnect_writer env w =
     (case writer (sess w) of
        None \<Rightarrow> disconnect_finish env w
      | Some x \<Rightarrow>
          let w1 = swallowed (close_result env) (emit (WriterClose x) w) in
          (case await_closed AwaitWritableClosed (writableStreamClosed (sess w1))
                  (writable_closed_result env) w1 of
             Inl e \<Rightarrow> (Inl e, w1)
           | Inr w2 \<Rightarrow> disconnect_finish env w2))"

definition disconnect_resume :: "release_env \<Rightarrow> world \<Rightarrow> (js_error + unit) \<times> world" where
  \<comment> \<open>the settling of line 117's promise and line 118, then the rest\<close>
  "disconnect_resume env w =
     (case reader (sess w) of
        None \<Rightarrow> disconnect_writer env w
      | Some r \<Rightarrow>
          let w1 = swallowed (cancel_result env) w in
          (case await_closed AwaitReadableClosed (readableStreamClosed (sess w1))
                  (readable_closed_result env) w1 of
             Inl e \<Rightarrow> (Inl e, w1)
           | Inr w2 \<Rightarrow> disconnect_writer env w2))"

definition disconnect :: "release_env \<Rightarrow> world \<Rightarrow> (js_error + unit) \<times> world" where
  "disconnect env w = disconnect_resume env (disconnect_begin w)"

section \<open>The script uploads of class DruidApp\<close>

text \<open>
  \<^verbatim>\<open>String.prototype.split\<close> with a separator string: the pieces between the
  occurrences of the separator, found from the left without overlap; an empty separator
  gives the single characters.
\<close>

function split_from :: "string \<Rightarrow> string \<Rightarrow> string \<Rightarrow> string list" where
  "split_from sep acc s =
     (if s = [] then [acc]
      else if sep \<noteq> [] \<and> take (length sep) s = sep
        then acc # split_from sep [] (drop (length sep) s)
        else split_from sep (acc @ [hd s]) (tl s))"
  by pat_completeness auto
termination
  by (relation "measure (\<lambda>(sep, acc, s). length s)") auto

definition split_str :: "string \<Rightarrow> string \<Rightarrow> string list" where
  "split_str sep s = (if sep = [] then map (\<lambda>c. [c]) s else split_from sep [] s)"

definition newline :: string where
  \<comment> \<open>the JavaScript literal \<^verbatim>\<open>'\n'\<close>: one line feed\<close>
  "newline = [CHR 0x0A]"

definition backslash_n :: string where
  \<comment> \<open>the JavaScript literal \<^verbatim>\<open>'\\n'\<close>: a backslash and the letter n\<close>
  "backslash_n = [CHR 0x5C, CHR ''n'']"

text \<open>
  The part of the application the uploads use: the session, the text of the editor
  (\<open>None\<close> while there is no editor), the script's name and modified flag, and the
  texts appended to the output pane. The pacing delays between the lines are waits
  and leave no trace here.
\<close>

record druid_app =
  crow :: world
  editor :: "string option"
  scriptName :: string
  scriptModified :: bool
  outputPane :: "string list"

record dropped_file =
  file_name :: string
  file_text :: "js_error + string"

definition outputLine :: "string \<Rightarrow> druid_app \<Rightarrow> druid_app" where
  \<comment> \<open>lines 1765-1773\<close>
  "outputLine t app = app\<lparr>outputPane := outputPane app @ [t @ newline]\<rparr>"

definition setModified :: "bool \<Rightarrow> druid_app \<Rightarrow> druid_app" where
  \<comment> \<open>lines 1706-1709\<close>
  "setModified m app = app\<lparr>scriptModified := m\<rparr>"

definition and_then ::
  "(js_error + unit) \<times> world \<Rightarrow> (world \<Rightarrow> (js_error + unit) \<times> world) \<Rightarrow> (js_error + unit) \<times> world" where
  \<comment> \<open>one awaited call after another inside a \<^verbatim>\<open>try\<close>: the first throw ends the block\<close>
  "and_then r f = (case r of (Inl e, w) \<Rightarrow> (Inl e, w) | (Inr u, w) \<Rightarrow> f w)"

text \<open>
  The \<^verbatim>\<open>for (const line of lines)\<close> loop. \<open>out k\<close> is the outcome of the \<open>k\<close>-th
  call of \<^verbatim>\<open>writer.write\<close> made by the operation.
\<close>

fun send_lines :: "(nat \<Rightarrow> js_error option) \<Rightarrow> nat \<Rightarrow> string list \<Rightarrow> world \<Rightarrow> (js_error + unit) \<times> world" where
  "send_lines out k [] w = (Inr (), w)"
| "send_lines out k (l # ls) w = and_then (writeLine (out k) l w) (send_lines out (Suc k) ls)"

definition runScript :: "(nat \<Rightarrow> js_error option) \<Rightarrow> druid_app \<Rightarrow> druid_app" where
  \<comment> \<open>lines 1598-1620\<close>
  "runScript out app =
     (if \<not> isConnected (sess (crow app)) then app
      else case editor app of
        None \<Rightarrow> app
      | Some code \<Rightarrow>
          let app1 = outputLine (''Running '' @ scriptName app @ ''...'') app;
              ls = split_str newline code
          in (case and_then (writeLine (out 0) ''^^s'' (crow app1)) (\<lambda>w1.
                   and_then (send_lines out 1 ls w1) (\<lambda>w2.
                   writeLine (out (Suc (length ls))) ''^^e'' w2)) of
                (Inr u, w) \<Rightarrow>
                  outputLine (''Ran '' @ scriptName app @ newline) (app1\<lparr>crow := w\<rparr>)
              | (Inl e, w) \<Rightarrow>
                  outputLine (''Run error: '' @ message e @ newline) (app1\<lparr>crow := w\<rparr>)))"

definition uploadScript :: "(nat \<Rightarrow> js_error option) \<Rightarrow> druid_app \<Rightarrow> druid_app" where
  \<comment> \<open>lines 1622-1644\<close>
  "uploadScript out app =
     (if \<not> isConnected (sess (crow app)) then app
      else case editor app of
        None \<Rightarrow> app
      | Some code \<Rightarrow>
          let app1 = outputLine (''Uploading '' @ scriptName app @ ''...'') app;
              ls = split_str newline code
          in (case and_then (writeLine (out 0) ''^^s'' (crow app1)) (\<lambda>w1.
                   and_then (send_lines out 1 ls w1) (\<lambda>w2.
                   writeLine (out (Suc (length ls))) ''^^w'' w2)) of
                (Inr u, w) \<Rightarrow> setModified False (app1\<lparr>crow := w\<rparr>)
              | (Inl e, w) \<Rightarrow>
                  outputLine (''Upload error: '' @ message e @ newline) (app1\<lparr>crow := w\<rparr>)))"

definition uploadFileFromDrop :: "(nat \<Rightarrow> js_error option) \<Rightarrow> dropped_file \<Rightarrow> druid_app \<Rightarrow> druid_app" where
  \<comment> \<open>lines 1880-1904\<close>
  "uploadFileFromDrop out file app =
     (if \<not> isConnected (sess (crow app)) then
        outputLine ''Error: Not connected to usb device (click connect in the header)'' app
      else case file_text file of
        Inl e \<Rightarrow> outputLine (''Upload error: '' @ message e @ backslash_n) app
      | Inr txt \<Rightarrow>
          let app1 = outputLine (''Uploading '' @ file_name file @ ''...'') app;
              ls = split_str backslash_n txt
          in (case and_then (writeLine (out 0) ''^^s'' (crow app1)) (\<lambda>w1.
                   and_then (send_lines out 1 ls w1) (\<lambda>w2.
                   writeLine (out (Suc (length ls))) ''^^w'' w2)) of
                (Inr u, w) \<Rightarrow> app1\<lparr>crow := w\<rparr>
              | (Inl e, w) \<Rightarrow>
                  outputLine (''Upload error: '' @ message e @ backslash_n) (app1\<lparr>crow := w\<rparr>)))"

section \<open>Executions\<close>

text \<open>
  Chunks arriving one after another while the loop waits; the pending read settling
  (or staying pending, \<open>None\<close>) while another task is suspended; and
  \<^verbatim>\<open>disconnect\<close> with the read loop woken during its first suspension.
\<close>

definition receive :: "release_env \<Rightarrow> string list \<Rightarrow> world \<Rightarrow> world" where
  "receive env vs w = fold (\<lambda>v. startReading_resume env (ReadValue v)) vs w"

definition settle :: "release_env \<Rightarrow> read_result option \<Rightarrow> world \<Rightarrow> world" where
  "settle env wake w = (case wake of None \<Rightarrow> w | Some r \<Rightarrow> startReading_resume env r w)"

definition disconnect_with :: "release_env \<Rightarrow> read_result option \<Rightarrow> world \<Rightarrow> (js_error + unit) \<times> world" where
  "disconnect_with env wake w = disconnect_resume env (settle env wake (disconnect_begin w))"

text \<open>The world after the first \<open>k\<close> statements of the fault handler's block.\<close>

definition teardown_after :: "nat \<Rightarrow> release_env \<Rightarrow> world \<Rightarrow> world" where
  "teardown_after k env w = run_steps (take k teardown_steps) env w"

text \<open>Example environments: every call succeeds; port 1, reader 2, writer 3.\<close>

definition ok_release :: release_env where
  "ok_release = \<lparr>cancel_result = None, readable_closed_result = None, close_result = None,
      writable_closed_result = None, port_close_result = None\<rparr>"

definition ok_connect :: connect_env where
  "ok_connect = \<lparr>requestPort_result = Inr 1, open_result = None, decoder_result = Inr 2,
      encoder_result = Inr 3, loop_env = ok_release\<rparr>"

definition connected_world :: world where
  "connected_world = snd (connect ok_connect (new_world True True))"

text \<open>Two failing environments: the picker is dismissed; the port does not open.\<close>

definition no_device :: connect_env where
  "no_device = ok_connect\<lparr>requestPort_result := Inl (Err ''No port selected by the user.'')\<rparr>"

definition open_fails :: connect_env where
  "open_fails = ok_connect\<lparr>open_result := Some (Err ''Failed to open serial port.'')\<rparr>"

text \<open>
  A second picker result with fresh handles; release calls that all reject; and the
  world after \<^verbatim>\<open>connect\<close> and \<^verbatim>\<open>disconnect\<close>, the loop having seen the end
  of the stream.
\<close>

definition other_connect :: connect_env where
  "other_connect = \<lparr>requestPort_result = Inr 4, open_result = None, decoder_result = Inr 5,
      encoder_result = Inr 6, loop_env = ok_release\<rparr>"

definition all_fail :: release_env where
  "all_fail = \<lparr>cancel_result = Some (Err ''cancel''), readable_closed_result = Some (Err ''pipe''),
      close_result = Some (Err ''close''), writable_closed_result = Some (Err ''pipe''),
      port_close_result = Some (Err ''port'')\<rparr>"

definition idle_again :: world where
  "idle_again = snd (disconnect_with ok_release (Some ReadDone) connected_world)"

text \<open>
  The world at the moment the loop has left on the end of the stream that
  \<^verbatim>\<open>disconnect\<close>'s cancel produces, \<^verbatim>\<open>disconnect\<close> itself still suspended.
\<close>

definition loop_exit_world :: world where
  "loop_exit_world = startReading_resume ok_release ReadDone (disconnect_begin connected_world)"

text \<open>
  For the uploads: every write resolves; a script of two lines, in the editor of an
  application whose session is connected, and the same text as a dropped file.
\<close>

definition all_ok :: "nat \<Rightarrow> js_error option" where
  "all_ok k = None"

definition demo_script :: string where
  "demo_script = ''x = 1'' @ newline @ ''y = 2''"

definition demo_app :: druid_app where
  "demo_app = \<lparr>crow = connected_world, editor = Some demo_script, scriptName = ''untitled.lua'',
      scriptModified = False, outputPane = []\<rparr>"

definition demo_file :: dropped_file where
  "demo_file = \<lparr>file_name = ''demo.lua'', file_text = Inr demo_script\<rparr>"

section \<open>Basic facts\<close>

lemma swallowed_id [simp]: "swallowed res w = w"
  by (cases res) (simp_all add: swallowed_def)

lemma emit_simps [simp]:
  "sess (emit e w) = sess w" "log (emit e w) = log w @ [e]" "reading (emit e w) = reading w"
  by (simp_all add: emit_def)

lemma upd_simps [simp]:
  "sess (upd f w) = f (sess w)" "log (upd f w) = log w" "reading (upd f w) = reading w"
  by (simp_all add: upd_def)

lemma fire_simps [simp]:
  "sess (fire c r w) = sess w" "reading (fire c r w) = reading w"
  "log (fire c r w) = (if onConnectionChange (sess w) then log w @ [ConnectionChange c r] else log w)"
  by (simp_all add: fire_def)

lemma events_append [simp]: "events (xs @ ys) = events xs @ events ys"
  by (induction xs rule: events.induct) simp_all

lemma written_append [simp]: "written (xs @ ys) = written xs @ written ys"
  by (induction xs rule: written.induct) simp_all

lemmas teardown_defs = run_steps_def teardown_steps_def flip_connected_def
      cancel_reader_def close_writer_def null_streams_def close_port_def fire_fault_def

lemma connected_world_eq:
  "connected_world = \<lparr>sess = \<lparr>port = Some 1, reader = Some 2, writer = Some 3, isConnected = True,
      readableStreamClosed = Some 1, writableStreamClosed = Some 1,
      onDataReceived = True, onConnectionChange = True, shouldReconnect = None\<rparr>,
     log = [RequestPort, PortOpen 1, ReaderRead 2, ConnectionChange True None], reading = True\<rparr>"
  by (simp add: connected_world_def connect_def ok_connect_def new_world_def CrowConnection_new_def
     startReading_def loop_head_def Let_def emit_def upd_def fire_def)

lemma resume_value_connected:
  assumes "isConnected (sess w)" "reader (sess w) = Some r" "reading w"
  shows "sess (startReading_resume env (ReadValue v) w) = sess w"
    and "reading (startReading_resume env (ReadValue v) w)"
    and "events (log (startReading_resume env (ReadValue v) w)) = events (log w)"
  using assms by (simp_all add: startReading_resume_def loop_head_def)

lemma receive_connected:
  assumes "isConnected (sess w)" "reader (sess w) = Some r" "reading w"
  shows "sess (receive env vs w) = sess w \<and> reading (receive env vs w)
     \<and> events (log (receive env vs w)) = events (log w)"
  using assms
proof (induction vs arbitrary: w)
  case Nil
  then show ?case by (simp add: receive_def)
next
  case (Cons v vs)
  let ?w = "startReading_resume env (ReadValue v) w"
  have "isConnected (sess ?w)" "reader (sess ?w) = Some r" "reading ?w"
    using Cons.prems by (simp_all add: resume_value_connected)
  from Cons.IH[OF this] show ?case
    using Cons.prems by (simp add: receive_def resume_value_connected)
qed

lemma resume_disconnected:
  assumes "\<not> isConnected (sess w)"
  shows "sess (startReading_resume env r w) = sess w"
    and "events (log (startReading_resume env r w)) = events (log w)"
  using assms
  by (simp_all add: startReading_resume_def loop_head_def read_fault_def Let_def split: read_result.splits)

lemma settle_disconnected:
  assumes "\<not> isConnected (sess w)"
  shows "sess (settle env wake w) = sess w"
    and "events (log (settle env wake w)) = events (log w)"
  using assms by (simp_all add: settle_def resume_disconnected split: option.splits)

lemma disconnect_begin_simps:
  "sess (disconnect_begin w) = (sess w)\<lparr>isConnected := False\<rparr>"
  "events (log (disconnect_begin w)) = events (log w)"
  "reading (disconnect_begin w) = reading w"
  by (simp_all add: disconnect_begin_def Let_def split: option.splits)

lemma disconnect_resume_live:
  assumes "reader (sess w) = Some r" "readableStreamClosed (sess w) = Some q"
    "writer (sess w) = Some x" "writableStreamClosed (sess w) = Some q'"
  shows "fst (disconnect_resume env w) = Inr ()"
    and "sess (snd (disconnect_resume env w)) = (sess w)\<lparr>port := None, reader := None, writer := None\<rparr>"
    and "events (log (snd (disconnect_resume env w))) =
          events (log w) @ (if onConnectionChange (sess w) then [(False, None)] else [])"
  using assms
  by (simp_all add: disconnect_resume_def disconnect_writer_def disconnect_finish_def
      await_closed_def Let_def split: option.splits)

lemma connect_success_iff:
  "fst (connect env w) \<longleftrightarrow>
     (\<exists>p r x. requestPort_result env = Inr p \<and> open_result env = None
        \<and> decoder_result env = Inr r \<and> encoder_result env = Inr x)"
  by (auto simp: connect_def connect_catch_def Let_def split: sum.splits option.splits)

lemma connect_success:
  assumes "requestPort_result env = Inr p" "open_result env = None"
    "decoder_result env = Inr r" "encoder_result env = Inr x"
  shows "fst (connect env w)"
    and "sess (snd (connect env w)) = (sess w)\<lparr>port := Some p, isConnected := True,
           readableStreamClosed := Some p, reader := Some r,
           writableStreamClosed := Some p, writer := Some x\<rparr>"
    and "reading (snd (connect env w))"
    and "events (log (snd (connect env w))) =
           events (log w) @ (if onConnectionChange (sess w) then [(True, None)] else [])"
  using assms
  by (simp_all add: connect_def Let_def startReading_def loop_head_def)

lemma read_fault_disconnected: "\<not> isConnected (sess (read_fault env e w))"
  by (simp add: read_fault_def teardown_defs Let_def split: option.splits)

section \<open>Connect, then disconnect\<close>

text \<open>
  C1. A fresh session with a connection observer; \<^verbatim>\<open>connect\<close> returns true; any
  number of chunks arrive; \<^verbatim>\<open>disconnect\<close> is called, whatever its release calls
  answer and whatever the pending read settles with while it is suspended. Then
  \<^verbatim>\<open>disconnect\<close> returns normally, \<open>isConnected\<close> is false, port, reader and
  writer are null, and the observer has seen exactly two events, \<open>(true)\<close> with no
  reason and then \<open>(false)\<close> with reason undefined.
\<close>

theorem connect_then_disconnect:
  assumes "fst (connect cenv (new_world d True))"
  shows "let w1 = snd (connect cenv (new_world d True));
             w2 = receive (loop_env cenv) vs w1;
             (res, w3) = disconnect_with renv wake w2
         in res = Inr () \<and> \<not> isConnected (sess w3) \<and> port (sess w3) = None
            \<and> reader (sess w3) = None \<and> writer (sess w3) = None
            \<and> events (log w3) = [(True, None), (False, None)]"
proof -
  let ?w0 = "new_world d True"
  let ?w1 = "snd (connect cenv ?w0)"
  let ?w2 = "receive (loop_env cenv) vs ?w1"
  let ?w3 = "settle renv wake (disconnect_begin ?w2)"
  from assms obtain p r x where env: "requestPort_result cenv = Inr p" "open_result cenv = None"
     "decoder_result cenv = Inr r" "encoder_result cenv = Inr x"
    unfolding connect_success_iff by blast
  note c = connect_success[OF env, of ?w0]
  have w0: "onConnectionChange (sess ?w0)" "events (log ?w0) = []"
    by (simp_all add: new_world_def)
  have s1: "isConnected (sess ?w1)" "reader (sess ?w1) = Some r" "reading ?w1"
    using c by simp_all
  note rc = receive_connected[OF s1, of "loop_env cenv" vs]
  have s2: "sess ?w2 = sess ?w1" "events (log ?w2) = [(True, None)]"
    using rc c(4) w0 by simp_all
  have nb: "\<not> isConnected (sess (disconnect_begin ?w2))"
    by (simp add: disconnect_begin_simps)
  have s3: "sess ?w3 = (sess ?w1)\<lparr>isConnected := False\<rparr>" "events (log ?w3) = [(True, None)]"
    using settle_disconnected[OF nb, of renv wake] s2 by (simp_all add: disconnect_begin_simps)
  have live: "reader (sess ?w3) = Some r" "readableStreamClosed (sess ?w3) = Some p"
    "writer (sess ?w3) = Some x" "writableStreamClosed (sess ?w3) = Some p"
    using s3(1) c(2) by simp_all
  note dr = disconnect_resume_live[OF live, of renv]
  have h: "onConnectionChange (sess ?w3)"
    using s3(1) c(2) w0 by simp
  show ?thesis
    unfolding Let_def disconnect_with_def case_prod_beta
    using dr s3 c(2) h by simp
qed

theorem connect_then_disconnect_witness:
  "fst (connect ok_connect (new_world True True)) \<and>
   (let w1 = snd (connect ok_connect (new_world True True));
        w2 = receive (loop_env ok_connect) [''hello''] w1;
        (res, w3) = disconnect_with ok_release (Some ReadDone) w2
    in res = Inr () \<and> \<not> isConnected (sess w3) \<and> port (sess w3) = None
       \<and> reader (sess w3) = None \<and> writer (sess w3) = None
       \<and> events (log w3) = [(True, None), (False, None)])"
proof -
  have h: "fst (connect ok_connect (new_world True True))"
    by (simp add: connect_success_iff ok_connect_def)
  show ?thesis
    using h connect_then_disconnect[OF h, of "[''hello'']" ok_release "Some ReadDone"] by simp
qed

section \<open>A failing connect\<close>

text \<open>
  C3. When \<^verbatim>\<open>requestPort\<close> rejects (permission denied, no device selected) or
  \<^verbatim>\<open>open\<close> rejects, on a session that is not connected and has a connection
  observer, \<^verbatim>\<open>connect\<close> returns false, fires exactly one event \<open>(false, message)\<close>
  with the message of the error, and \<open>isConnected\<close> is still false. Nothing is thrown:
  the result of \<open>connect\<close> is a boolean in every case, the \<^verbatim>\<open>catch\<close> block covering
  the whole body.
\<close>

theorem connect_failure:
  assumes "requestPort_result env = Inl e \<or> (requestPort_result env = Inr p \<and> open_result env = Some e)"
    and "\<not> isConnected (sess w)" and "onConnectionChange (sess w)"
  shows "fst (connect env w) = False
     \<and> events (log (snd (connect env w))) = events (log w) @ [(False, Some (message e))]
     \<and> \<not> isConnected (sess (snd (connect env w)))"
  using assms by (auto simp: connect_def connect_catch_def Let_def)

theorem connect_failure_witness:
  "(requestPort_result no_device = Inl (Err ''No port selected by the user.'')
      \<or> (requestPort_result no_device = Inr 0 \<and> open_result no_device = Some (Err ''No port selected by the user.'')))
   \<and> \<not> isConnected (sess (new_world True True)) \<and> onConnectionChange (sess (new_world True True))
   \<and> fst (connect no_device (new_world True True)) = False
   \<and> events (log (snd (connect no_device (new_world True True)))) = [(False, Some ''No port selected by the user.'')]
   \<and> \<not> isConnected (sess (snd (connect no_device (new_world True True))))"
proof -
  have h1: "requestPort_result no_device = Inl (Err ''No port selected by the user.'')
      \<or> (requestPort_result no_device = Inr 0 \<and> open_result no_device = Some (Err ''No port selected by the user.''))"
    by (simp add: no_device_def)
  have h2: "\<not> isConnected (sess (new_world True True))" and h3: "onConnectionChange (sess (new_world True True))"
    by (simp_all add: new_world_def CrowConnection_new_def)
  show ?thesis
    using h1 h2 h3 connect_failure[OF h1 h2 h3] by (simp add: new_world_def)
qed

section \<open>Writing\<close>

text \<open>
  C6. While \<open>isConnected\<close> is false, \<^verbatim>\<open>write\<close> and \<^verbatim>\<open>writeLine\<close> throw the
  error \<^verbatim>\<open>Not connected\<close> and leave the world as it was, so nothing reaches the
  writer. This is the case in particular in the world a read fault leaves behind.
\<close>

theorem write_not_connected:
  "(\<not> isConnected (sess w) \<longrightarrow>
      write_raw res d w = (Inl (Err ''Not connected''), w) \<and>
      writeLine res d w = (Inl (Err ''Not connected''), w))
   \<and> (reading w0 \<longrightarrow>
        (let w' = startReading_resume env (ReadError e) w0
         in write_raw res d w' = (Inl (Err ''Not connected''), w') \<and>
            writeLine res d w' = (Inl (Err ''Not connected''), w')))"
  by (simp add: write_raw_def writeLine_def startReading_resume_def read_fault_disconnected)

theorem write_not_connected_witness:
  "\<not> isConnected (sess (new_world True True)) \<and>
   write_raw None ''^^i'' (new_world True True) = (Inl (Err ''Not connected''), new_world True True) \<and>
   writeLine None ''^^i'' (new_world True True) = (Inl (Err ''Not connected''), new_world True True) \<and>
   reading connected_world \<and>
   fst (writeLine None ''^^i'' (startReading_resume ok_release (ReadError (Err ''The device has been lost.'')) connected_world))
     = Inl (Err ''Not connected'')"
proof -
  have h1: "\<not> isConnected (sess (new_world True True))"
    by (simp add: new_world_def CrowConnection_new_def)
  have h2: "reading connected_world"
    by (simp add: connected_world_eq)
  show ?thesis
    using h1 h2 write_not_connected[of "new_world True True" None "''^^i''" connected_world ok_release
        "Err ''The device has been lost.''"]
    by (simp add: Let_def)
qed

text \<open>
  C7. \<^verbatim>\<open>writeLine(t)\<close> is \<^verbatim>\<open>write(t + "\r\n")\<close>. On a connected session with a
  writer it hands the writer exactly one text, the characters of \<open>t\<close> followed by
  carriage return and line feed; when the write resolves, that call is its only effect.
\<close>

theorem writeLine_crlf:
  "writeLine res t w = write_raw res (t @ CRLF) w
   \<and> (isConnected (sess w) \<and> writer (sess w) = Some x \<longrightarrow>
        written (log (snd (writeLine res t w))) = written (log w) @ [t @ [CHR 0x0D, CHR 0x0A]]
      \<and> writeLine None t w = (Inr (), emit (WriterWrite x (t @ [CHR 0x0D, CHR 0x0A])) w))"
  by (cases res) (simp_all add: writeLine_def write_raw_def CRLF_def Let_def)

theorem writeLine_crlf_witness:
  "isConnected (sess connected_world) \<and> writer (sess connected_world) = Some 3
   \<and> written (log (snd (writeLine None ''foo'' connected_world))) = [[CHR ''f'', CHR ''o'', CHR ''o'', CHR 0x0D, CHR 0x0A]]
   \<and> fst (writeLine None ''foo'' connected_world) = Inr ()"
proof -
  have h: "isConnected (sess connected_world) \<and> writer (sess connected_world) = Some 3"
    by (simp add: connected_world_eq)
  have "written (log (snd (writeLine None ''foo'' connected_world)))
          = written (log connected_world) @ [''foo'' @ [CHR 0x0D, CHR 0x0A]]
      \<and> writeLine None ''foo'' connected_world
          = (Inr (), emit (WriterWrite 3 (''foo'' @ [CHR 0x0D, CHR 0x0A])) connected_world)"
    using h writeLine_crlf[of None "''foo''" connected_world 3] by blast
  with h show ?thesis
    by (simp add: connected_world_eq)
qed

section \<open>The read fault\<close>

lemma teardown_after_simps:
  "teardown_after 0 env w = w"
  "teardown_after (Suc 0) env w = flip_connected env w"
  "teardown_after 2 env w = cancel_reader env (teardown_after 1 env w)"
  "teardown_after 3 env w = close_writer env (teardown_after 2 env w)"
  "teardown_after 4 env w = null_streams env (teardown_after 3 env w)"
  "teardown_after 5 env w = close_port env (teardown_after 4 env w)"
  "teardown_after 6 env w = fire_fault env (teardown_after 5 env w)"
  "run_steps teardown_steps env w = teardown_after 6 env w"
  by (simp_all add: teardown_after_def run_steps_def teardown_steps_def numeral_nat)

lemma flip_connected_simps [simp]:
  "sess (flip_connected env w) = (sess w)\<lparr>isConnected := False, shouldReconnect := Some False\<rparr>"
  "log (flip_connected env w) = log w" "reading (flip_connected env w) = reading w"
  by (simp_all add: flip_connected_def)

lemma cancel_reader_simps [simp]:
  "sess (cancel_reader env w) = sess w" "reading (cancel_reader env w) = reading w"
  "log (cancel_reader env w) = log w @ (case reader (sess w) of None \<Rightarrow> [] | Some r \<Rightarrow> [ReaderCancel r])"
  by (simp_all add: cancel_reader_def split: option.splits)

lemma close_writer_simps [simp]:
  "sess (close_writer env w) = sess w" "reading (close_writer env w) = reading w"
  "log (close_writer env w) = log w @ (case writer (sess w) of None \<Rightarrow> [] | Some x \<Rightarrow> [WriterClose x])"
  by (simp_all add: close_writer_def split: option.splits)

lemma null_streams_simps [simp]:
  "sess (null_streams env w) = (sess w)\<lparr>reader := None, writer := None\<rparr>"
  "log (null_streams env w) = log w" "reading (null_streams env w) = reading w"
  by (simp_all add: null_streams_def)

lemma close_port_simps [simp]:
  "sess (close_port env w) = (sess w)\<lparr>port := None\<rparr>" "reading (close_port env w) = reading w"
  "log (close_port env w) = log w @ (case port (sess w) of None \<Rightarrow> [] | Some p \<Rightarrow> [PortClose p])"
  by (simp_all add: close_port_def split: option.splits)

lemma fire_fault_simps [simp]:
  "sess (fire_fault env w) = sess w" "reading (fire_fault env w) = reading w"
  "log (fire_fault env w) =
     log w @ (if onConnectionChange (sess w) then [ConnectionChange False (Some fault_reason)] else [])"
  by (simp_all add: fire_fault_def)

lemma step_env_irrelevant:
  "flip_connected env = flip_connected env'" "cancel_reader env = cancel_reader env'"
  "close_writer env = close_writer env'" "null_streams env = null_streams env'"
  "close_port env = close_port env'" "fire_fault env = fire_fault env'"
  by (simp_all add: fun_eq_iff flip_connected_def cancel_reader_def close_writer_def
       null_streams_def close_port_def fire_fault_def split: option.splits)

lemma teardown_env_irrelevant: "teardown_after k env w = teardown_after k env' w"
proof -
  have "f env = f env'" if "f \<in> set teardown_steps" for f
    using that step_env_irrelevant[of env env'] by (auto simp: teardown_steps_def)
  then have "fold (\<lambda>f. f env) (take k teardown_steps) w = fold (\<lambda>f. f env') (take k teardown_steps) w"
    by (intro fold_cong) (auto dest: in_set_takeD)
  then show ?thesis by (simp add: teardown_after_def run_steps_def)
qed

text \<open>
  C2. A read fault while \<open>isConnected\<close> is true. The handler's first statement makes
  \<open>isConnected\<close> false with port, reader and writer still held and nothing released;
  then, in this order, the reader is cancelled, the writer closed, reader and writer
  nulled, the port closed and nulled, and one event \<open>(false, reason)\<close> fired, the
  reason not empty. The outcome does not depend on which release calls reject, so no
  rejection stops the later steps, and the session always ends with \<open>isConnected\<close>
  false and port, reader and writer null.
\<close>

theorem read_fault_teardown:
  assumes "isConnected (sess w)" and "reading w"
  shows "let w0 = emit (ConsoleError ''Read error:'' e) w;
             st = (\<lambda>k. teardown_after k env w0);
             w' = startReading_resume env (ReadError e) w
         in
           \<not> isConnected (sess (st 1)) \<and> log (st 1) = log w0
           \<and> port (sess (st 1)) = port (sess w) \<and> reader (sess (st 1)) = reader (sess w)
           \<and> writer (sess (st 1)) = writer (sess w)
         \<and> log (st 2) = log (st 1) @ (case reader (sess w) of None \<Rightarrow> [] | Some r \<Rightarrow> [ReaderCancel r])
         \<and> log (st 3) = log (st 2) @ (case writer (sess w) of None \<Rightarrow> [] | Some x \<Rightarrow> [WriterClose x])
         \<and> log (st 4) = log (st 3) \<and> reader (sess (st 4)) = None \<and> writer (sess (st 4)) = None
           \<and> port (sess (st 4)) = port (sess w)
         \<and> log (st 5) = log (st 4) @ (case port (sess w) of None \<Rightarrow> [] | Some p \<Rightarrow> [PortClose p])
           \<and> port (sess (st 5)) = None
         \<and> log (st 6) = log (st 5) @ (if onConnectionChange (sess w) then [ConnectionChange False (Some fault_reason)] else [])
         \<and> w' = (st 6)\<lparr>reading := False\<rparr>
         \<and> \<not> isConnected (sess w') \<and> port (sess w') = None \<and> reader (sess w') = None
           \<and> writer (sess w') = None
         \<and> events (log w') = events (log w) @ (if onConnectionChange (sess w) then [(False, Some fault_reason)] else [])
         \<and> fault_reason \<noteq> []
         \<and> startReading_resume env' (ReadError e) w = w'"
  using assms
  using teardown_env_irrelevant[of 6 env' "emit (ConsoleError ''Read error:'' e) w" env]
  by (simp add: Let_def teardown_after_simps startReading_resume_def read_fault_def fault_reason_def
         split: option.splits)

theorem read_fault_teardown_witness:
  "isConnected (sess connected_world) \<and> reading connected_world
   \<and> log (startReading_resume all_fail (ReadError (Err ''The device has been lost.'')) connected_world)
       = [RequestPort, PortOpen 1, ReaderRead 2, ConnectionChange True None,
          ConsoleError ''Read error:'' (Err ''The device has been lost.''),
          ReaderCancel 2, WriterClose 3, PortClose 1,
          ConnectionChange False (Some ''device disconnected. please reconnect > '')]
   \<and> \<not> isConnected (sess (startReading_resume all_fail (ReadError (Err ''The device has been lost.'')) connected_world))"
proof -
  have h1: "isConnected (sess connected_world)" and h2: "reading connected_world"
    by (simp_all add: connected_world_eq)
  show ?thesis
    using h1 h2 read_fault_teardown[OF h1 h2, of "Err ''The device has been lost.''" all_fail all_fail]
    by (simp add: Let_def teardown_after_simps connected_world_eq fault_reason_def)
qed

section \<open>Disconnect on an idle session\<close>

lemma idle_again_eq:
  "idle_again = \<lparr>sess = \<lparr>port = None, reader = None, writer = None, isConnected = False,
      readableStreamClosed = Some 1, writableStreamClosed = Some 1,
      onDataReceived = True, onConnectionChange = True, shouldReconnect = None\<rparr>,
     log = [RequestPort, PortOpen 1, ReaderRead 2, ConnectionChange True None, ReaderCancel 2,
            AwaitReadableClosed 1, WriterClose 3, AwaitWritableClosed 1, PortClose 1,
            ConnectionChange False None],
     reading = False\<rparr>"
  by (simp add: idle_again_def disconnect_with_def settle_def connected_world_eq disconnect_begin_def
      startReading_resume_def disconnect_resume_def disconnect_writer_def disconnect_finish_def
      await_closed_def Let_def emit_def upd_def fire_def)

text \<open>
  C4, as stated, fails: after \<^verbatim>\<open>connect\<close> and \<^verbatim>\<open>disconnect\<close> the session is idle
  and two events have been seen; a second \<^verbatim>\<open>disconnect\<close> returns normally but the
  observer sees a third event.
\<close>

theorem disconnect_twice_counterexample:
  "\<not> isConnected (sess idle_again) \<and> port (sess idle_again) = None
   \<and> reader (sess idle_again) = None \<and> writer (sess idle_again) = None
   \<and> events (log idle_again) = [(True, None), (False, None)]
   \<and> fst (disconnect ok_release idle_again) = Inr ()
   \<and> events (log (snd (disconnect ok_release idle_again))) = [(True, None), (False, None), (False, None)]"
  by (simp add: idle_again_eq disconnect_def disconnect_begin_def
      disconnect_resume_def disconnect_writer_def disconnect_finish_def Let_def emit_def upd_def fire_def)

text \<open>
  C4, amended. On an idle session (not connected; port, reader and writer null)
  \<^verbatim>\<open>disconnect\<close> does not throw, makes no release call and leaves every field as
  it was, and it fires one more event \<open>(false)\<close> with no reason when an observer is
  registered: line 134 tests the observer only.
\<close>

theorem disconnect_when_idle:
  assumes "port (sess w) = None" "reader (sess w) = None" "writer (sess w) = None"
    and "\<not> isConnected (sess w)"
  shows "fst (disconnect env w) = Inr () \<and> sess (snd (disconnect env w)) = sess w
     \<and> log (snd (disconnect env w)) =
         log w @ (if onConnectionChange (sess w) then [ConnectionChange False None] else [])"
  using assms
  by (simp add: disconnect_def disconnect_begin_def disconnect_resume_def disconnect_writer_def
      disconnect_finish_def Let_def)

theorem disconnect_when_idle_witness:
  "port (sess idle_again) = None \<and> reader (sess idle_again) = None \<and> writer (sess idle_again) = None
   \<and> \<not> isConnected (sess idle_again)
   \<and> fst (disconnect all_fail idle_again) = Inr ()
   \<and> sess (snd (disconnect all_fail idle_again)) = sess idle_again
   \<and> log (snd (disconnect all_fail idle_again)) = log idle_again @ [ConnectionChange False None]"
proof -
  have h: "port (sess idle_again) = None" "reader (sess idle_again) = None"
    "writer (sess idle_again) = None" "\<not> isConnected (sess idle_again)"
    by (simp_all add: idle_again_eq)
  have "onConnectionChange (sess idle_again)"
    by (simp add: idle_again_eq)
  then show ?thesis
    using h disconnect_when_idle[OF h, of all_fail] by simp
qed

section \<open>Connect on a connected session\<close>

text \<open>
  C5, as stated, fails: on the connected session with port 1, reader 2 and writer 3, a
  \<^verbatim>\<open>connect\<close> whose picker yields port 4 returns true and replaces all three.
\<close>

theorem connect_while_connected_counterexample:
  "isConnected (sess connected_world) \<and> port (sess connected_world) = Some 1
   \<and> reader (sess connected_world) = Some 2 \<and> writer (sess connected_world) = Some 3
   \<and> fst (connect other_connect connected_world) = True
   \<and> port (sess (snd (connect other_connect connected_world))) = Some 4
   \<and> reader (sess (snd (connect other_connect connected_world))) = Some 5
   \<and> writer (sess (snd (connect other_connect connected_world))) = Some 6"
  by (simp add: connected_world_eq connect_success other_connect_def)

text \<open>
  C5, amended. \<^verbatim>\<open>connect\<close> does not look at the state of the session: what it
  returns depends on the outcomes of its own calls only; whenever the picker yields a
  port the port field holds that port afterwards; and when open and the set-up of the
  streams succeed as well it returns true with \<open>isConnected\<close> true and reader and
  writer replaced by the new ones.
\<close>

theorem connect_unguarded:
  "fst (connect env w) = fst (connect env w')
   \<and> (requestPort_result env = Inr p \<longrightarrow> port (sess (snd (connect env w))) = Some p)
   \<and> (requestPort_result env = Inr p \<and> open_result env = None
        \<and> decoder_result env = Inr r \<and> encoder_result env = Inr x \<longrightarrow>
        fst (connect env w) = True \<and> isConnected (sess (snd (connect env w)))
        \<and> port (sess (snd (connect env w))) = Some p
        \<and> reader (sess (snd (connect env w))) = Some r
        \<and> writer (sess (snd (connect env w))) = Some x)"
proof -
  have "fst (connect env w) = fst (connect env w')"
    by (simp add: connect_success_iff)
  moreover have "requestPort_result env = Inr p \<longrightarrow> port (sess (snd (connect env w))) = Some p"
    by (simp add: connect_def connect_catch_def Let_def startReading_def loop_head_def
        split: option.splits sum.splits)
  ultimately show ?thesis
    by (simp add: connect_success)
qed

theorem connect_unguarded_witness:
  "requestPort_result other_connect = Inr 4 \<and> open_result other_connect = None
   \<and> decoder_result other_connect = Inr 5 \<and> encoder_result other_connect = Inr 6
   \<and> isConnected (sess connected_world)
   \<and> fst (connect other_connect connected_world) = fst (connect other_connect (new_world True True))
   \<and> fst (connect other_connect connected_world) = True
   \<and> port (sess (snd (connect other_connect connected_world))) = Some 4"
proof -
  have h: "requestPort_result other_connect = Inr 4 \<and> open_result other_connect = None
   \<and> decoder_result other_connect = Inr 5 \<and> encoder_result other_connect = Inr 6"
    by (simp add: other_connect_def)
  have c: "isConnected (sess connected_world)"
    by (simp add: connected_world_eq)
  show ?thesis
    using h c connect_unguarded[of other_connect connected_world "new_world True True" 4 5 6]
    by auto
qed

section \<open>The end of the stream\<close>

lemma loop_exit_world_eq:
  "loop_exit_world = \<lparr>sess = \<lparr>port = Some 1, reader = Some 2, writer = Some 3, isConnected = False,
      readableStreamClosed = Some 1, writableStreamClosed = Some 1,
      onDataReceived = True, onConnectionChange = True, shouldReconnect = None\<rparr>,
     log = [RequestPort, PortOpen 1, ReaderRead 2, ConnectionChange True None, ReaderCancel 2],
     reading = False\<rparr>"
  by (simp add: loop_exit_world_def connected_world_eq disconnect_begin_def
      startReading_resume_def Let_def emit_def upd_def)

text \<open>
  C8, as stated, fails in its last part. On the connected session, \<^verbatim>\<open>disconnect\<close>
  makes \<open>isConnected\<close> false and cancels the reader; the pending read settles with
  end-of-stream and the loop leaves. At that moment the only event seen is the one of
  \<^verbatim>\<open>connect\<close>: \<^verbatim>\<open>disconnect\<close> fires its event in its last statement, after the
  loop has gone.
\<close>

theorem end_of_stream_before_event_counterexample:
  "reading (disconnect_begin connected_world)
   \<and> \<not> reading loop_exit_world
   \<and> \<not> isConnected (sess loop_exit_world)
   \<and> events (log loop_exit_world) = [(True, None)]
   \<and> events (log (snd (disconnect_resume ok_release loop_exit_world))) = [(True, None), (False, None)]"
  by (simp add: loop_exit_world_eq disconnect_begin_simps connected_world_eq
      disconnect_resume_live)

text \<open>
  C8, amended. On a clean end-of-stream the loop leaves without firing an event and
  without changing a field of the session. When the end-of-stream follows the cancel
  of \<^verbatim>\<open>disconnect\<close>, \<open>isConnected\<close> is already false at that moment and no new
  event has been seen yet; the rest of \<^verbatim>\<open>disconnect\<close> then fires its one event
  \<open>(false)\<close> with no reason.
\<close>

theorem end_of_stream_silent:
  "(reading w \<longrightarrow>
      sess (startReading_resume env ReadDone w) = sess w
      \<and> log (startReading_resume env ReadDone w) = log w
      \<and> \<not> reading (startReading_resume env ReadDone w))
   \<and> (reading w \<longrightarrow>
        (let w2 = startReading_resume env ReadDone (disconnect_begin w)
         in \<not> reading w2 \<and> \<not> isConnected (sess w2) \<and> events (log w2) = events (log w)
            \<and> (reader (sess w) = Some r \<and> readableStreamClosed (sess w) = Some q
                 \<and> writer (sess w) = Some x \<and> writableStreamClosed (sess w) = Some q'
                 \<and> onConnectionChange (sess w) \<longrightarrow>
                fst (disconnect_resume renv w2) = Inr ()
                \<and> events (log (snd (disconnect_resume renv w2))) = events (log w) @ [(False, None)])))"
proof -
  let ?w1 = "disconnect_begin w"
  let ?w2 = "startReading_resume env ReadDone ?w1"
  have a: "reading w \<longrightarrow> sess (startReading_resume env ReadDone w) = sess w
      \<and> log (startReading_resume env ReadDone w) = log w
      \<and> \<not> reading (startReading_resume env ReadDone w)"
    by (simp add: startReading_resume_def)
  have n: "\<not> isConnected (sess ?w1)"
    by (simp add: disconnect_begin_simps)
  have s: "sess ?w2 = (sess w)\<lparr>isConnected := False\<rparr>" "events (log ?w2) = events (log w)"
    using resume_disconnected[OF n, of env ReadDone] by (simp_all add: disconnect_begin_simps)
  have r: "reading w \<longrightarrow> \<not> reading ?w2"
    by (simp add: startReading_resume_def disconnect_begin_simps)
  have d: "fst (disconnect_resume renv ?w2) = Inr ()
      \<and> events (log (snd (disconnect_resume renv ?w2))) = events (log w) @ [(False, None)]"
    if "reader (sess w) = Some r" "readableStreamClosed (sess w) = Some q"
       "writer (sess w) = Some x" "writableStreamClosed (sess w) = Some q'"
       "onConnectionChange (sess w)"
    using that s disconnect_resume_live[of ?w2 r q x q' renv] by simp
  show ?thesis
    unfolding Let_def using a s r d by simp
qed

theorem end_of_stream_silent_witness:
  "reading connected_world
   \<and> reader (sess connected_world) = Some 2 \<and> readableStreamClosed (sess connected_world) = Some 1
   \<and> writer (sess connected_world) = Some 3 \<and> writableStreamClosed (sess connected_world) = Some 1
   \<and> onConnectionChange (sess connected_world)
   \<and> \<not> isConnected (sess loop_exit_world)
   \<and> events (log loop_exit_world) = events (log connected_world)
   \<and> events (log (snd (disconnect_resume all_fail loop_exit_world)))
        = events (log connected_world) @ [(False, None)]"
proof -
  have h: "reading connected_world"
    "reader (sess connected_world) = Some 2 \<and> readableStreamClosed (sess connected_world) = Some 1
     \<and> writer (sess connected_world) = Some 3 \<and> writableStreamClosed (sess connected_world) = Some 1
     \<and> onConnectionChange (sess connected_world)"
    by (simp_all add: connected_world_eq)
  show ?thesis
    using h end_of_stream_silent[of connected_world ok_release 2 1 3 1 all_fail]
    unfolding loop_exit_world_def Let_def by blast
qed

section \<open>A port that does not open\<close>

text \<open>
  C10. The picker yields a port and \<^verbatim>\<open>open\<close> rejects, on a session without reader
  and writer and with a connection observer. \<^verbatim>\<open>connect\<close> returns false and fires
  \<open>(false, message)\<close>, but the port field keeps the port, so the session is not in
  the constructor's state; a \<^verbatim>\<open>disconnect\<close> after it calls \<^verbatim>\<open>close\<close> on that
  port and fires a further event \<open>(false)\<close>.
\<close>

theorem failed_open_keeps_port:
  assumes "requestPort_result env = Inr p" and "open_result env = Some e"
    and "onConnectionChange (sess w)" and "reader (sess w) = None" and "writer (sess w) = None"
  shows "let w1 = snd (connect env w); w2 = snd (disconnect renv w1)
         in fst (connect env w) = False
            \<and> events (log w1) = events (log w) @ [(False, Some (message e))]
            \<and> port (sess w1) = Some p
            \<and> sess w1 \<noteq> CrowConnection_new\<lparr>onDataReceived := d, onConnectionChange := c\<rparr>
            \<and> fst (disconnect renv w1) = Inr ()
            \<and> log w2 = log w1 @ [PortClose p, ConnectionChange False None]
            \<and> port (sess w2) = None"
proof -
  let ?w1 = "snd (connect env w)"
  have c: "fst (connect env w) = False" "sess ?w1 = (sess w)\<lparr>port := Some p\<rparr>"
    "log ?w1 = log w @ [RequestPort, PortOpen p, ConsoleError ''Connection error:'' e,
        ConnectionChange False (Some (message e))]"
    using assms by (simp_all add: connect_def connect_catch_def Let_def)
  have ne: "sess ?w1 \<noteq> CrowConnection_new\<lparr>onDataReceived := d, onConnectionChange := c\<rparr>"
  proof
    assume "sess ?w1 = CrowConnection_new\<lparr>onDataReceived := d, onConnectionChange := c\<rparr>"
    then have "port (sess ?w1) = None" by (simp add: CrowConnection_new_def)
    with c(2) show False by simp
  qed
  have d: "fst (disconnect renv ?w1) = Inr ()"
    "log (snd (disconnect renv ?w1)) = log ?w1 @ [PortClose p, ConnectionChange False None]"
    "port (sess (snd (disconnect renv ?w1))) = None"
    using assms c(2)
    by (simp_all add: disconnect_def disconnect_begin_def disconnect_resume_def
        disconnect_writer_def disconnect_finish_def Let_def)
  show ?thesis
    unfolding Let_def using c ne d by simp
qed

theorem failed_open_keeps_port_witness:
  "requestPort_result open_fails = Inr 1 \<and> open_result open_fails = Some (Err ''Failed to open serial port.'')
   \<and> onConnectionChange (sess (new_world True True))
   \<and> reader (sess (new_world True True)) = None \<and> writer (sess (new_world True True)) = None
   \<and> fst (connect open_fails (new_world True True)) = False
   \<and> port (sess (snd (connect open_fails (new_world True True)))) = Some 1
   \<and> log (snd (disconnect ok_release (snd (connect open_fails (new_world True True))))) =
       [RequestPort, PortOpen 1, ConsoleError ''Connection error:'' (Err ''Failed to open serial port.''),
        ConnectionChange False (Some ''Failed to open serial port.''),
        PortClose 1, ConnectionChange False None]"
proof -
  have h: "requestPort_result open_fails = Inr 1"
    "open_result open_fails = Some (Err ''Failed to open serial port.'')"
    "onConnectionChange (sess (new_world True True))"
    "reader (sess (new_world True True)) = None" "writer (sess (new_world True True)) = None"
    by (simp_all add: open_fails_def ok_connect_def new_world_def CrowConnection_new_def)
  have l: "log (snd (connect open_fails (new_world True True))) =
       [RequestPort, PortOpen 1, ConsoleError ''Connection error:'' (Err ''Failed to open serial port.''),
        ConnectionChange False (Some ''Failed to open serial port.'')]"
    by (simp add: connect_def connect_catch_def open_fails_def ok_connect_def new_world_def
        CrowConnection_new_def Let_def)
  show ?thesis
    using h l failed_open_keeps_port[OF h, of ok_release]
    by (simp add: Let_def)
qed

section \<open>The script uploads\<close>

text \<open>
  On a connected session whose writes all resolve, each upload hands the writer the
  begin line, the pieces of the text and the closing control line, each followed by
  CRLF. \<^verbatim>\<open>runScript\<close> and \<^verbatim>\<open>uploadScript\<close> cut the text at line feeds;
  \<^verbatim>\<open>uploadFileFromDrop\<close> cuts it at the two characters backslash and n.
\<close>

lemma writeLine_ok:
  assumes "isConnected (sess w)" "writer (sess w) = Some x"
  shows "writeLine None l w = (Inr (), emit (WriterWrite x (l @ CRLF)) w)"
  using assms by (simp add: writeLine_def write_raw_def)

lemma send_lines_ok:
  assumes "isConnected (sess w)" "writer (sess w) = Some x"
  shows "fst (send_lines all_ok k ls w) = Inr ()
     \<and> sess (snd (send_lines all_ok k ls w)) = sess w
     \<and> log (snd (send_lines all_ok k ls w)) = log w @ map (\<lambda>l. WriterWrite x (l @ CRLF)) ls"
  using assms
proof (induction ls arbitrary: w k)
  case Nil
  then show ?case by simp
next
  case (Cons l ls)
  let ?w = "emit (WriterWrite x (l @ CRLF)) w"
  have "isConnected (sess ?w)" "writer (sess ?w) = Some x"
    using Cons.prems by simp_all
  from Cons.IH[OF this, of "Suc k"] show ?case
    using Cons.prems by (simp add: and_then_def writeLine_ok all_ok_def[of k])
qed

lemma written_map_write [simp]: "written (map (\<lambda>l. WriterWrite x (f l)) ls) = map f ls"
  by (induction ls) simp_all

lemma script_block_ok:
  assumes "isConnected (sess w)" "writer (sess w) = Some x"
  shows "\<exists>w'. and_then (writeLine (all_ok 0) ''^^s'' w) (\<lambda>w1.
            and_then (send_lines all_ok 1 ls w1) (\<lambda>w2.
            writeLine (all_ok (Suc (length ls))) ctl w2)) = (Inr (), w')
          \<and> written (log w') = written (log w) @ map (\<lambda>l. l @ CRLF) (''^^s'' # ls @ [ctl])"
proof -
  let ?w1 = "emit (WriterWrite x (''^^s'' @ CRLF)) w"
  have 1: "isConnected (sess ?w1)" "writer (sess ?w1) = Some x"
    using assms by simp_all
  note s = send_lines_ok[OF 1, of 1 ls]
  obtain w2 where e: "send_lines all_ok 1 ls ?w1 = (Inr (), w2)"
    using s by (cases "send_lines all_ok 1 ls ?w1") auto
  have 2: "isConnected (sess w2)" "writer (sess w2) = Some x"
    "log w2 = log ?w1 @ map (\<lambda>l. WriterWrite x (l @ CRLF)) ls"
    using s 1 e by simp_all
  have "writeLine None ctl w2 = (Inr (), emit (WriterWrite x (ctl @ CRLF)) w2)"
    using 2 by (simp add: writeLine_ok)
  then show ?thesis
    using assms e 2(3) by (simp add: and_then_def writeLine_ok all_ok_def)
qed

lemma uploadScript_pattern:
  assumes "isConnected (sess (crow app))" "writer (sess (crow app)) = Some x" "editor app = Some code"
  shows "written (log (crow (uploadScript all_ok app))) =
     written (log (crow app)) @ map (\<lambda>l. l @ CRLF) (''^^s'' # split_str newline code @ [''^^w''])"
proof -
  obtain w' where "and_then (writeLine (all_ok 0) ''^^s'' (crow app)) (\<lambda>w1.
            and_then (send_lines all_ok 1 (split_str newline code) w1) (\<lambda>w2.
            writeLine (all_ok (Suc (length (split_str newline code)))) ''^^w'' w2)) = (Inr (), w')"
    and "written (log w') = written (log (crow app)) @ map (\<lambda>l. l @ CRLF) (''^^s'' # split_str newline code @ [''^^w''])"
    using script_block_ok[OF assms(1,2)] by blast
  then show ?thesis
    using assms by (simp add: uploadScript_def outputLine_def setModified_def Let_def)
qed

lemma runScript_pattern:
  assumes "isConnected (sess (crow app))" "writer (sess (crow app)) = Some x" "editor app = Some code"
  shows "written (log (crow (runScript all_ok app))) =
     written (log (crow app)) @ map (\<lambda>l. l @ CRLF) (''^^s'' # split_str newline code @ [''^^e''])"
proof -
  obtain w' where "and_then (writeLine (all_ok 0) ''^^s'' (crow app)) (\<lambda>w1.
            and_then (send_lines all_ok 1 (split_str newline code) w1) (\<lambda>w2.
            writeLine (all_ok (Suc (length (split_str newline code)))) ''^^e'' w2)) = (Inr (), w')"
    and "written (log w') = written (log (crow app)) @ map (\<lambda>l. l @ CRLF) (''^^s'' # split_str newline code @ [''^^e''])"
    using script_block_ok[OF assms(1,2)] by blast
  then show ?thesis
    using assms by (simp add: runScript_def outputLine_def Let_def)
qed

lemma uploadFileFromDrop_pattern:
  assumes "isConnected (sess (crow app))" "writer (sess (crow app)) = Some x" "file_text file = Inr txt"
  shows "written (log (crow (uploadFileFromDrop all_ok file app))) =
     written (log (crow app)) @ map (\<lambda>l. l @ CRLF) (''^^s'' # split_str backslash_n txt @ [''^^w''])"
proof -
  obtain w' where "and_then (writeLine (all_ok 0) ''^^s'' (crow app)) (\<lambda>w1.
            and_then (send_lines all_ok 1 (split_str backslash_n txt) w1) (\<lambda>w2.
            writeLine (all_ok (Suc (length (split_str backslash_n txt)))) ''^^w'' w2)) = (Inr (), w')"
    and "written (log w') = written (log (crow app)) @ map (\<lambda>l. l @ CRLF) (''^^s'' # split_str backslash_n txt @ [''^^w''])"
    using script_block_ok[OF assms(1,2)] by blast
  then show ?thesis
    using assms by (simp add: uploadFileFromDrop_def outputLine_def Let_def)
qed

lemma split_demo:
  "split_str newline demo_script = [''x = 1'', ''y = 2'']"
  "split_str backslash_n demo_script = [demo_script]"
  by (simp_all add: split_str_def newline_def backslash_n_def demo_script_def)

text \<open>
  C9 holds for \<^verbatim>\<open>runScript\<close> and \<^verbatim>\<open>uploadScript\<close> and fails for
  \<^verbatim>\<open>uploadFileFromDrop\<close>: for the two-line script, the dropped file is sent as one
  line with the line feed inside it, where \<^verbatim>\<open>uploadScript\<close> sends the two lines
  one by one.
\<close>

theorem uploadFileFromDrop_sends_one_line:
  "written (log (crow (uploadFileFromDrop all_ok demo_file demo_app)))
     = [''^^s'' @ CRLF, (''x = 1'' @ newline @ ''y = 2'') @ CRLF, ''^^w'' @ CRLF]
   \<and> written (log (crow (uploadScript all_ok demo_app)))
     = [''^^s'' @ CRLF, ''x = 1'' @ CRLF, ''y = 2'' @ CRLF, ''^^w'' @ CRLF]"
proof -
  have c: "isConnected (sess (crow demo_app))" "writer (sess (crow demo_app)) = Some 3"
    "written (log (crow demo_app)) = []"
    by (simp_all add: demo_app_def connected_world_eq)
  have "editor demo_app = Some demo_script" "file_text demo_file = Inr demo_script"
    by (simp_all add: demo_app_def demo_file_def)
  then show ?thesis
    using uploadFileFromDrop_pattern[OF c(1,2), of demo_file demo_script]
      uploadScript_pattern[OF c(1,2), of demo_script] c(3)
    by (simp add: split_demo) (simp add: demo_script_def)
qed

end
